theory Spec2Isabelle
  imports Main "HOL-Library.Word"
begin

section \<open>Go values used by the rebalancer\<close>

text \<open>
  A Go \<open>string\<close> is a sequence of bytes and is modelled as \<open>string\<close> (a list of
  8-bit characters); \<open>byte\<close> is an 8-bit word, \<open>uint32\<close> a 32-bit word, and a
  \<open>math.Int\<close> an integer.
\<close>

type_synonym byte = "8 word"
type_synonym uint32 = "32 word"

subsection \<open>Package strings\<close>

text \<open>
  \<open>strings.HasPrefix\<close> and \<open>strings.TrimPrefix\<close> compare bytes. \<open>strings.ToLower\<close> and
  \<open>strings.TrimSpace\<close> are modelled on ASCII text, which is what hexadecimal and
  bech32 addresses consist of: the letters \<open>A\<close>..\<open>Z\<close> are mapped to \<open>a\<close>..\<open>z\<close>, and
  the white space characters are tab, line feed, vertical tab, form feed,
  carriage return and space.
\<close>

definition HasPrefix :: "string \<Rightarrow> string \<Rightarrow> bool" where
  "HasPrefix s prefix = (take (length prefix) s = prefix)"

definition TrimPrefix :: "string \<Rightarrow> string \<Rightarrow> string" where
  "TrimPrefix s prefix = (if HasPrefix s prefix then drop (length prefix) s else s)"

definition toLower_byte :: "char \<Rightarrow> char" where
  "toLower_byte c =
     (let n = (of_char c :: nat)
      in if 65 \<le> n \<and> n \<le> 90 then char_of (n + 32) else c)"

definition ToLower :: "string \<Rightarrow> string" where
  "ToLower s = map toLower_byte s"

definition isSpace :: "char \<Rightarrow> bool" where
  "isSpace c = (let n = (of_char c :: nat) in (9 \<le> n \<and> n \<le> 13) \<or> n = 32)"

definition TrimSpace :: "string \<Rightarrow> string" where
  "TrimSpace s = rev (dropWhile isSpace (rev (dropWhile isSpace s)))"

subsection \<open>Package encoding/hex and the verb \<open>%x\<close>\<close>

datatype hex_error = InvalidByteError char | ErrLength

definition fromHexChar :: "char \<Rightarrow> nat option" where
  "fromHexChar c =
     (let n = (of_char c :: nat)
      in if 48 \<le> n \<and> n \<le> 57 then Some (n - 48)
         else if 97 \<le> n \<and> n \<le> 102 then Some (n - 87)
         else if 65 \<le> n \<and> n \<le> 70 then Some (n - 55)
         else None)"

text \<open>
  \<open>hex.DecodeString\<close> reads two characters per byte and reports the first
  character that is not a hexadecimal digit; a well-formed string of odd
  length is \<open>ErrLength\<close>.
\<close>

fun DecodeString :: "string \<Rightarrow> hex_error + byte list" where
  "DecodeString [] = Inr []"
| "DecodeString [p] =
     (case fromHexChar p of None \<Rightarrow> Inl (InvalidByteError p) | Some a \<Rightarrow> Inl ErrLength)"
| "DecodeString (p # q # src) =
     (case fromHexChar p of
        None \<Rightarrow> Inl (InvalidByteError p)
      | Some a \<Rightarrow>
          (case fromHexChar q of
             None \<Rightarrow> Inl (InvalidByteError q)
           | Some b \<Rightarrow>
               (case DecodeString src of
                  Inl e \<Rightarrow> Inl e
                | Inr dst \<Rightarrow> Inr (of_nat (a * 16 + b) # dst))))"

definition hextable :: string where
  "hextable = ''0123456789abcdef''"

definition hexByte :: "byte \<Rightarrow> string" where
  "hexByte b = [hextable ! (unat b div 16), hextable ! (unat b mod 16)]"

text \<open>\<open>hex.EncodeToString\<close>, which is also what \<open>fmt.Sprintf("%x", bytes)\<close> prints.\<close>

definition EncodeToString :: "byte list \<Rightarrow> string" where
  "EncodeToString bs = concat (map hexByte bs)"

subsection \<open>Decimal rendering of integers\<close>

definition digits :: string where
  "digits = ''0123456789''"

fun natDigits :: "nat \<Rightarrow> string" where
  "natDigits n =
     (if n < 10 then [digits ! n]
      else natDigits (n div 10) @ [digits ! (n mod 10)])"

declare natDigits.simps [simp del]

text \<open>\<open>math.Int.String\<close> and the verb \<open>%d\<close>.\<close>

definition Int_String :: "int \<Rightarrow> string" where
  "Int_String i = (if i < 0 then CHR ''-'' # natDigits (nat (- i)) else natDigits (nat i))"

section \<open>Data model\<close>

text \<open>
  Field names carry a prefix for their struct, since several structs of the
  program have fields called \<open>Amount\<close>, \<open>From\<close> or \<open>Recipient\<close>. A pointer
  that may be \<open>nil\<close> is an \<open>option\<close>.
\<close>

text \<open>\<open>types.RouteInfo\<close>; \<open>ri_Amount\<close> is the optional override, empty when unset.\<close>

record RouteInfo =
  ri_DestinationDomain :: uint32
  ri_Recipient :: string
  ri_TokenID :: string
  ri_Amount :: string

text \<open>The zero value that \<open>var routeInfo RouteInfo\<close> declares.\<close>

definition RouteInfo_zero :: RouteInfo where
  "RouteInfo_zero =
     \<lparr>ri_DestinationDomain = 0, ri_Recipient = [], ri_TokenID = [], ri_Amount = []\<rparr>"

text \<open>\<open>types.HyperlaneRoute\<close>.\<close>

record HyperlaneRoute =
  hr_TxHash :: string
  hr_BlockHeight :: int
  hr_From :: string
  hr_Amount :: string
  hr_Denom :: string
  hr_CustomHookMetadata :: string
  hr_RouteInfo :: "RouteInfo option"

text \<open>\<open>types.Routes\<close>.\<close>

record Routes =
  rs_Routes :: "HyperlaneRoute list"
  rs_TotalAmount :: string
  rs_MultisigAddr :: string

text \<open>
  \<open>warptypes.MsgRemoteTransfer\<close>, with the fields the program reads and writes.
  \<open>util.HexAddress\<close> is an array of 32 bytes.
\<close>

record MsgRemoteTransfer =
  mrt_Sender :: string
  mrt_TokenId :: "byte list"
  mrt_DestinationDomain :: uint32
  mrt_Recipient :: "byte list"
  mrt_Amount :: int
  mrt_CustomHookMetadata :: string

text \<open>\<open>sdk.Coin\<close> and \<open>banktypes.MsgSend\<close>.\<close>

record Coin =
  coin_Denom :: string
  coin_Amount :: int

record MsgSend =
  ms_FromAddress :: string
  ms_ToAddress :: string
  ms_Amount :: "Coin list"

text \<open>
  A protobuf \<open>Any\<close>: a type URL and the encoded value. The encoded bytes are
  represented by what they decode to, so that \<open>Unmarshal\<close> into a message type
  succeeds exactly on the encodings of that type.
\<close>

datatype wire_value =
    Undecodable
  | RemoteTransferBytes MsgRemoteTransfer
  | SendBytes MsgSend

record Any =
  any_TypeUrl :: string
  any_Value :: wire_value

definition MsgRemoteTransfer_Unmarshal :: "wire_value \<Rightarrow> MsgRemoteTransfer option" where
  "MsgRemoteTransfer_Unmarshal v =
     (case v of RemoteTransferBytes m \<Rightarrow> Some m | _ \<Rightarrow> None)"

definition MsgSend_Unmarshal :: "wire_value \<Rightarrow> MsgSend option" where
  "MsgSend_Unmarshal v = (case v of SendBytes m \<Rightarrow> Some m | _ \<Rightarrow> None)"

text \<open>\<open>tx.TxBody\<close>, \<open>tx.Tx\<close>, and \<open>tx.TxRaw\<close> whose body bytes may fail to decode.\<close>

record TxBody =
  body_Messages :: "Any list"
  body_Memo :: string

record Tx =
  tx_Body :: "TxBody option"

record TxRaw =
  raw_BodyBytes :: "string + TxBody"

definition TxBody_Unmarshal :: "string + TxBody \<Rightarrow> string + TxBody" where
  "TxBody_Unmarshal bz = bz"

text \<open>\<open>client.Transaction\<close>, \<open>client.HyperlaneTransfer\<close>, \<open>client.RoutingMetadata\<close>.\<close>

record Transaction =
  txn_Hash :: string
  txn_BlockHeight :: int
  txn_Memo :: string
  txn_Tx :: "Tx option"

record HyperlaneTransfer =
  ht_From :: string
  ht_To :: string
  ht_Amount :: string
  ht_DestinationDomain :: uint32
  ht_TokenID :: string
  ht_CustomHookMetadata :: string

record RoutingMetadata =
  rm_DestinationDomain :: uint32
  rm_Recipient :: string
  rm_TokenID :: string

definition RoutingMetadata_zero :: RoutingMetadata where
  "RoutingMetadata_zero = \<lparr>rm_DestinationDomain = 0, rm_Recipient = [], rm_TokenID = []\<rparr>"

text \<open>\<open>types.AddressWhitelist\<close> inside \<open>types.Config\<close>: a Go map from domain to addresses.\<close>

record Config =
  cfg_Domains :: "uint32 \<rightharpoonup> string list"

text \<open>\<open>verifier.VerifyResult\<close>.\<close>

record VerifyResult =
  vr_Valid :: bool
  vr_MatchedCount :: nat
  vr_TotalRoutes :: nat
  vr_Errors :: "string list"
  vr_Warnings :: "string list"

subsection \<open>Errors\<close>

text \<open>
  The program builds its errors with \<open>fmt.Errorf\<close>; each constructor stands for
  one message and carries the values that message prints. The last two are
  the run-time panics of Go: a slice expression out of range and a \<open>nil\<close>
  pointer dereference.
\<close>

datatype error =
    ReadFileFailed string
  | ConfigJSONFailed string
  | ConfigIsNil
  | DomainNotConfigured uint32
  | NoWhitelistedAddresses uint32
  | NotWhitelisted string uint32
  | MetadataJSONFailed string
  | FieldRequired string
  | NoRoutingInfo string
  | InvalidAmount string string
  | HexDecodeFailed hex_error
  | TokenIDLength nat
  | Bech32DecodeFailed string
  | InvalidTokenID string error
  | InvalidRecipient string error
  | QueryFailed string
  | PanicSliceBounds
  | PanicNilDereference

subsection \<open>Library functions outside the repository\<close>

text \<open>
  The functions of the Cosmos SDK and of the Go library that the program calls
  and whose results it only passes on are parameters of the model:
  \<open>sdk.AccAddressFromBech32\<close>, \<open>math.NewIntFromString\<close>, \<open>json.Unmarshal\<close> at each
  target type (given the value the pointer refers to, it returns the updated
  value), and \<open>os.ReadFile\<close>. An \<open>Inl\<close> carries the text of the library's error.
\<close>

record lib =
  AccAddressFromBech32 :: "string \<Rightarrow> string + byte list"
  NewIntFromString :: "string \<Rightarrow> int option"
  Unmarshal_RouteInfo :: "string \<Rightarrow> RouteInfo \<Rightarrow> string + RouteInfo"
  Unmarshal_RoutingMetadata :: "string \<Rightarrow> RoutingMetadata \<Rightarrow> string + RoutingMetadata"
  Unmarshal_Config :: "string \<Rightarrow> Config \<Rightarrow> string + Config"
  ReadFile :: "string \<Rightarrow> string + string"

section \<open>Package generator\<close>

text \<open>\<open>parseTokenID\<close>: a token id must decode to exactly 32 bytes.\<close>

definition parseTokenID :: "string \<Rightarrow> error + byte list" where
  "parseTokenID tokenIDStr =
     (case DecodeString (TrimPrefix tokenIDStr ''0x'') of
        Inl err \<Rightarrow> Inl (HexDecodeFailed err)
      | Inr tokenID \<Rightarrow>
          if length tokenID \<noteq> 32 then Inl (TokenIDLength (length tokenID))
          else Inr tokenID)"

text \<open>
  The padding step shared by \<open>parseAndPadAddress\<close> and \<open>MatchesRoute\<close>:
  \<open>paddedAddr := make([]byte, 32); copy(paddedAddr[32-len(addrBytes):], addrBytes)\<close>.
  The slice expression panics when \<open>32 - len(addrBytes)\<close> is negative.
\<close>

definition padTo32 :: "byte list \<Rightarrow> error + byte list" where
  "padTo32 addrBytes =
     (if 32 < length addrBytes then Inl PanicSliceBounds
      else Inr (replicate (32 - length addrBytes) 0 @ addrBytes))"

text \<open>\<open>parseAndPadAddress\<close>: an EVM address after \<open>0x\<close>, a bech32 address otherwise.\<close>

definition parseAndPadAddress :: "lib \<Rightarrow> string \<Rightarrow> error + byte list" where
  "parseAndPadAddress L addrStr =
     (if HasPrefix addrStr ''0x'' then
        (case DecodeString (TrimPrefix addrStr ''0x'') of
           Inl err \<Rightarrow> Inl (HexDecodeFailed err)
         | Inr decoded \<Rightarrow> padTo32 decoded)
      else
        (case AccAddressFromBech32 L addrStr of
           Inl err \<Rightarrow> Inl (Bech32DecodeFailed err)
         | Inr addr \<Rightarrow> padTo32 addr))"

text \<open>
  \<open>Generate\<close>: one message per route, in order; the first route that fails
  aborts the whole call.
\<close>

fun Generate :: "lib \<Rightarrow> string \<Rightarrow> HyperlaneRoute list \<Rightarrow> error + MsgRemoteTransfer list" where
  "Generate L multisigAddr [] = Inr []"
| "Generate L multisigAddr (route # routes) =
     (case hr_RouteInfo route of
        None \<Rightarrow> Inl (NoRoutingInfo (hr_TxHash route))
      | Some routeInfo \<Rightarrow>
          (case NewIntFromString L (hr_Amount route) of
             None \<Rightarrow> Inl (InvalidAmount (hr_Amount route) (hr_TxHash route))
           | Some amount \<Rightarrow>
               (case parseTokenID (ri_TokenID routeInfo) of
                  Inl err \<Rightarrow> Inl (InvalidTokenID (hr_TxHash route) err)
                | Inr tokenID \<Rightarrow>
                    (case parseAndPadAddress L (ri_Recipient routeInfo) of
                       Inl PanicSliceBounds \<Rightarrow> Inl PanicSliceBounds
                     | Inl err \<Rightarrow> Inl (InvalidRecipient (hr_TxHash route) err)
                     | Inr recipient \<Rightarrow>
                         (case Generate L multisigAddr routes of
                            Inl err \<Rightarrow> Inl err
                          | Inr msgs \<Rightarrow>
                              Inr (\<lparr>mrt_Sender = multisigAddr,
                                    mrt_TokenId = tokenID,
                                    mrt_DestinationDomain = ri_DestinationDomain routeInfo,
                                    mrt_Recipient = recipient,
                                    mrt_Amount = amount,
                                    mrt_CustomHookMetadata = []\<rparr> # msgs))))))"

section \<open>Package types\<close>

subsection \<open>Properties of the metadata parser\<close>

text \<open>\<open>ParseCustomHookMetadata\<close>: decode the JSON, then require the three fields.\<close>

definition ParseCustomHookMetadata :: "lib \<Rightarrow> string \<Rightarrow> error + RouteInfo" where
  "ParseCustomHookMetadata L metadata =
     (case Unmarshal_RouteInfo L metadata RouteInfo_zero of
        Inl err \<Rightarrow> Inl (MetadataJSONFailed err)
      | Inr routeInfo \<Rightarrow>
          if ri_DestinationDomain routeInfo = 0 then Inl (FieldRequired ''destination_domain'')
          else if ri_Recipient routeInfo = [] then Inl (FieldRequired ''recipient'')
          else if ri_TokenID routeInfo = [] then Inl (FieldRequired ''token_id'')
          else Inr routeInfo)"

subsection \<open>Properties of the whitelist\<close>

definition normalizeAddress :: "string \<Rightarrow> string" where
  "normalizeAddress addr = ToLower (TrimSpace addr)"



text \<open>
  \<open>ValidateRoute\<close>, a method on a \<open>*Config\<close> that may be \<open>nil\<close>. The loop over the
  domain's addresses returns at the first one equal to the normalized recipient.
\<close>

definition ValidateRoute :: "Config option \<Rightarrow> RouteInfo \<Rightarrow> error + unit" where
  "ValidateRoute c route =
     (case c of
        None \<Rightarrow> Inl ConfigIsNil
      | Some cfg \<Rightarrow>
          (case cfg_Domains cfg (ri_DestinationDomain route) of
             None \<Rightarrow> Inl (DomainNotConfigured (ri_DestinationDomain route))
           | Some whitelistedAddresses \<Rightarrow>
               if length whitelistedAddresses = 0
               then Inl (NoWhitelistedAddresses (ri_DestinationDomain route))
               else if normalizeAddress (ri_Recipient route) \<in> set whitelistedAddresses
               then Inr ()
               else Inl (NotWhitelisted (ri_Recipient route) (ri_DestinationDomain route))))"

section \<open>Package client\<close>

definition MsgRemoteTransfer_url :: string where
  "MsgRemoteTransfer_url = ''/hyperlane.warp.v1.MsgRemoteTransfer''"

definition MsgSend_url :: string where
  "MsgSend_url = ''/cosmos.bank.v1beta1.MsgSend''"

text \<open>
  One iteration of the loop of \<open>ExtractHyperlaneTransfers\<close> over the messages of
  a transaction: \<open>routingMeta\<close> is the metadata decoded from the memo, if any,
  and \<open>transfers\<close> the slice built so far. A \<open>continue\<close> leaves the slice as it is.
\<close>

definition extractMessage ::
  "RoutingMetadata option \<Rightarrow> HyperlaneTransfer list \<Rightarrow> Any \<Rightarrow> HyperlaneTransfer list" where
  "extractMessage routingMeta transfers anyMsg =
     (case (if any_TypeUrl anyMsg = MsgRemoteTransfer_url then
              (case MsgRemoteTransfer_Unmarshal (any_Value anyMsg) of
                 None \<Rightarrow> None
               | Some msg \<Rightarrow>
                   Some (transfers @
                     [\<lparr>ht_From = mrt_Sender msg,
                       ht_To = ''0x'' @ EncodeToString (mrt_Recipient msg),
                       ht_Amount = Int_String (mrt_Amount msg),
                       ht_DestinationDomain = mrt_DestinationDomain msg,
                       ht_TokenID = ''0x'' @ EncodeToString (mrt_TokenId msg),
                       ht_CustomHookMetadata = mrt_CustomHookMetadata msg\<rparr>]))
            else Some transfers) of
        None \<Rightarrow> transfers
      | Some transfers1 \<Rightarrow>
          (case routingMeta of
             None \<Rightarrow> transfers1
           | Some meta \<Rightarrow>
               if any_TypeUrl anyMsg = MsgSend_url then
                 (case MsgSend_Unmarshal (any_Value anyMsg) of
                    None \<Rightarrow> transfers1
                  | Some sendMsg \<Rightarrow>
                      (case ms_Amount sendMsg of
                         [] \<Rightarrow> transfers1
                       | coin # coins \<Rightarrow>
                           transfers1 @
                             [\<lparr>ht_From = ms_ToAddress sendMsg,
                               ht_To = rm_Recipient meta,
                               ht_Amount = Int_String (coin_Amount coin),
                               ht_DestinationDomain = rm_DestinationDomain meta,
                               ht_TokenID = rm_TokenID meta,
                               ht_CustomHookMetadata = []\<rparr>]))
               else transfers1))"

text \<open>The memo of a transaction decoded as routing metadata, when it is not empty and decodes.\<close>

definition memoRoutingMeta :: "lib \<Rightarrow> Transaction \<Rightarrow> RoutingMetadata option" where
  "memoRoutingMeta L txn =
     (if txn_Memo txn \<noteq> [] then
        (case Unmarshal_RoutingMetadata L (txn_Memo txn) RoutingMetadata_zero of
           Inl err \<Rightarrow> None
         | Inr meta \<Rightarrow> Some meta)
      else None)"

text \<open>\<open>ExtractHyperlaneTransfers\<close>; the error it returns beside the slice is always \<open>nil\<close>.\<close>

definition ExtractHyperlaneTransfers :: "lib \<Rightarrow> Transaction \<Rightarrow> HyperlaneTransfer list" where
  "ExtractHyperlaneTransfers L txn =
     (case txn_Tx txn of
        None \<Rightarrow> []
      | Some t \<Rightarrow>
          (case tx_Body t of
             None \<Rightarrow> []
           | Some body \<Rightarrow>
               foldl (extractMessage (memoRoutingMeta L txn)) [] (body_Messages body)))"

text \<open>
  \<open>FilterHyperlaneTransfersToAddress\<close>: the target in padded hexadecimal form,
  and the transactions that have a transfer to or from the target.
\<close>

definition targetHexOf :: "lib \<Rightarrow> string \<Rightarrow> string" where
  "targetHexOf L targetAddress =
     (if \<not> HasPrefix targetAddress ''0x'' then
        (case AccAddressFromBech32 L targetAddress of
           Inl err \<Rightarrow> []
         | Inr addr \<Rightarrow>
             (let targetHex = ''0x'' @ EncodeToString addr
              in if length targetHex < 66
                 then ''0x'' @ replicate (66 - length targetHex) CHR ''0'' @ drop 2 targetHex
                 else targetHex))
      else targetAddress)"

definition transferTouches :: "string \<Rightarrow> string \<Rightarrow> HyperlaneTransfer \<Rightarrow> bool" where
  "transferTouches targetHex targetAddress transfer =
     (let transferTo = ToLower (ht_To transfer);
          transferFrom = ToLower (ht_From transfer);
          target = ToLower targetHex;
          targetBech32 = ToLower targetAddress
      in transferTo = target \<or> transferFrom = targetBech32 \<or> transferTo = targetBech32)"

definition FilterHyperlaneTransfersToAddress ::
  "lib \<Rightarrow> Transaction list \<Rightarrow> string \<Rightarrow> Transaction list" where
  "FilterHyperlaneTransfersToAddress L txs targetAddress =
     filter (\<lambda>tx. \<exists>transfer \<in> set (ExtractHyperlaneTransfers L tx).
                     transferTouches (targetHexOf L targetAddress) targetAddress transfer) txs"

section \<open>Package parser\<close>

text \<open>
  The routing information of one transfer in \<open>ParseRoutes\<close>: from the hook
  metadata when there is some, from the transfer's own fields when its
  destination domain is not zero, and none otherwise.
\<close>

definition resolveRouteInfo :: "lib \<Rightarrow> HyperlaneTransfer \<Rightarrow> RouteInfo option" where
  "resolveRouteInfo L transfer =
     (if ht_CustomHookMetadata transfer \<noteq> [] then
        (case ParseCustomHookMetadata L (ht_CustomHookMetadata transfer) of
           Inl err \<Rightarrow> None
         | Inr routeInfo \<Rightarrow> Some routeInfo)
      else if ht_DestinationDomain transfer \<noteq> 0 then
        Some \<lparr>ri_DestinationDomain = ht_DestinationDomain transfer,
              ri_Recipient = ht_To transfer,
              ri_TokenID = ht_TokenID transfer,
              ri_Amount = []\<rparr>
      else None)"

text \<open>
  Modelled from the spec: \<open>math.Int.Add\<close> of the Cosmos SDK, which is not part
  of the repository, is arbitrary-precision integer addition.
\<close>

definition Int_Add :: "int \<Rightarrow> int \<Rightarrow> int" where
  "Int_Add a b = a + b"

text \<open>
  The body of the loop over the transfers of a transaction. The state is the
  slice \<open>routes\<close> and the running \<open>totalAmount\<close>; every \<open>continue\<close> returns the
  state unchanged. The warnings the loop prints are not part of the model.
\<close>

definition processTransfer ::
  "lib \<Rightarrow> Config option \<Rightarrow> string \<Rightarrow> Transaction \<Rightarrow>
   HyperlaneRoute list \<times> int \<Rightarrow> HyperlaneTransfer \<Rightarrow> HyperlaneRoute list \<times> int" where
  "processTransfer L config multisigAddr tx st transfer =
     (if ht_From transfer \<noteq> multisigAddr then st
      else
        (case resolveRouteInfo L transfer of
           None \<Rightarrow> st
         | Some routeInfo \<Rightarrow>
             if config \<noteq> None \<and> isl (ValidateRoute config routeInfo) then st
             else
               (let amount = (if ri_Amount routeInfo \<noteq> [] then ri_Amount routeInfo
                              else ht_Amount transfer);
                    route = \<lparr>hr_TxHash = txn_Hash tx,
                             hr_BlockHeight = txn_BlockHeight tx,
                             hr_From = ht_From transfer,
                             hr_Amount = amount,
                             hr_Denom = ''utia'',
                             hr_CustomHookMetadata = ht_CustomHookMetadata transfer,
                             hr_RouteInfo = Some routeInfo\<rparr>
                in (fst st @ [route],
                    (case NewIntFromString L amount of
                       Some amountInt \<Rightarrow> Int_Add (snd st) amountInt
                     | None \<Rightarrow> snd st)))))"

definition processTx ::
  "lib \<Rightarrow> Config option \<Rightarrow> string \<Rightarrow>
   HyperlaneRoute list \<times> int \<Rightarrow> Transaction \<Rightarrow> HyperlaneRoute list \<times> int" where
  "processTx L config multisigAddr st tx =
     foldl (processTransfer L config multisigAddr tx) st (ExtractHyperlaneTransfers L tx)"

text \<open>
  \<open>ParseRoutes\<close>. The query of the height range belongs to the chain client;
  its result, an error or the transactions, is the argument \<open>queried\<close>.
\<close>

definition ParseRoutes ::
  "lib \<Rightarrow> Config option \<Rightarrow> string \<Rightarrow> string + Transaction list \<Rightarrow> error + Routes" where
  "ParseRoutes L config multisigAddr queried =
     (case queried of
        Inl err \<Rightarrow> Inl (QueryFailed err)
      | Inr txs \<Rightarrow>
          (let filtered = FilterHyperlaneTransfersToAddress L txs multisigAddr;
               st = foldl (processTx L config multisigAddr) ([], 0) filtered
           in Inr \<lparr>rs_Routes = fst st,
                   rs_TotalAmount = Int_String (snd st),
                   rs_MultisigAddr = multisigAddr\<rparr>))"

section \<open>Package verifier\<close>

text \<open>
  The recipient a route expects, as the hexadecimal string \<open>MatchesRoute\<close>
  compares with: a bech32 recipient that decodes is padded to 32 bytes, with
  the slice expression of \<open>padTo32\<close>; an EVM recipient that decodes to fewer
  than 32 bytes is padded; otherwise the lowercased string stays as it is.
\<close>

definition expectedRecipientHex :: "lib \<Rightarrow> string \<Rightarrow> error + string" where
  "expectedRecipientHex L recipient =
     (let expected = TrimPrefix (ToLower recipient) ''0x''
      in if \<not> HasPrefix recipient ''0x'' then
           (case AccAddressFromBech32 L recipient of
              Inr addr \<Rightarrow>
                (case padTo32 addr of
                   Inl err \<Rightarrow> Inl err
                 | Inr paddedAddr \<Rightarrow> Inr (EncodeToString paddedAddr))
            | Inl err \<Rightarrow> Inr expected)
         else
           (case DecodeString expected of
              Inr recipientBytes \<Rightarrow>
                if length recipientBytes < 32
                then Inr (EncodeToString
                            (replicate (32 - length recipientBytes) 0 @ recipientBytes))
                else Inr expected
            | Inl err \<Rightarrow> Inr expected))"

text \<open>\<open>MatchesRoute\<close> dereferences \<open>route.RouteInfo\<close> without a check.\<close>

definition MatchesRoute :: "lib \<Rightarrow> MsgRemoteTransfer \<Rightarrow> HyperlaneRoute \<Rightarrow> error + bool" where
  "MatchesRoute L msg route =
     (case hr_RouteInfo route of
        None \<Rightarrow> Inl PanicNilDereference
      | Some routeInfo \<Rightarrow>
          if mrt_DestinationDomain msg \<noteq> ri_DestinationDomain routeInfo then Inr False
          else
            (let expectedAmount = (if ri_Amount routeInfo \<noteq> [] then ri_Amount routeInfo
                                   else hr_Amount route)
             in if Int_String (mrt_Amount msg) \<noteq> expectedAmount then Inr False
                else if EncodeToString (mrt_TokenId msg)
                          \<noteq> TrimPrefix (ToLower (ri_TokenID routeInfo)) ''0x''
                then Inr False
                else
                  (case expectedRecipientHex L (ri_Recipient routeInfo) of
                     Inl err \<Rightarrow> Inl err
                   | Inr expected \<Rightarrow>
                       Inr (EncodeToString (mrt_Recipient msg) = expected))))"

text \<open>The messages of a transaction body that are \<open>MsgRemoteTransfer\<close> and decode.\<close>

fun extractRemoteTxs :: "Any list \<Rightarrow> MsgRemoteTransfer list" where
  "extractRemoteTxs [] = []"
| "extractRemoteTxs (anyMsg # msgs) =
     (if any_TypeUrl anyMsg = MsgRemoteTransfer_url then
        (case MsgRemoteTransfer_Unmarshal (any_Value anyMsg) of
           None \<Rightarrow> extractRemoteTxs msgs
         | Some remoteMsg \<Rightarrow> remoteMsg # extractRemoteTxs msgs)
      else extractRemoteTxs msgs)"

text \<open>The inner loop of \<open>Verify\<close>: stop at the first message that matches.\<close>

fun findMatch :: "lib \<Rightarrow> MsgRemoteTransfer list \<Rightarrow> HyperlaneRoute \<Rightarrow> error + bool" where
  "findMatch L [] route = Inr False"
| "findMatch L (msg # remoteTxs) route =
     (case MatchesRoute L msg route of
        Inl err \<Rightarrow> Inl err
      | Inr True \<Rightarrow> Inr True
      | Inr False \<Rightarrow> findMatch L remoteTxs route)"

definition addError :: "string \<Rightarrow> VerifyResult \<Rightarrow> VerifyResult" where
  "addError msg result = result\<lparr>vr_Valid := False, vr_Errors := vr_Errors result @ [msg]\<rparr>"

text \<open>The outer loop of \<open>Verify\<close> over the routes, \<open>i\<close> being the index of the next one.\<close>

fun verifyRoutes ::
  "lib \<Rightarrow> MsgRemoteTransfer list \<Rightarrow> nat \<Rightarrow> HyperlaneRoute list \<Rightarrow> VerifyResult \<Rightarrow>
   error + VerifyResult" where
  "verifyRoutes L remoteTxs i [] result = Inr result"
| "verifyRoutes L remoteTxs i (route # routes) result =
     (case hr_RouteInfo route of
        None \<Rightarrow>
          verifyRoutes L remoteTxs (Suc i) routes
            (addError (''route '' @ Int_String (int i) @ '' from tx '' @ hr_TxHash route
                         @ '' has no routing info'') result)
      | Some routeInfo \<Rightarrow>
          (case findMatch L remoteTxs route of
             Inl err \<Rightarrow> Inl err
           | Inr True \<Rightarrow>
               verifyRoutes L remoteTxs (Suc i) routes
                 (result\<lparr>vr_MatchedCount := vr_MatchedCount result + 1\<rparr>)
           | Inr False \<Rightarrow>
               verifyRoutes L remoteTxs (Suc i) routes
                 (addError (''no matching MsgRemoteTransfer found for route ''
                              @ Int_String (int i) @ '' (tx: '' @ hr_TxHash route
                              @ '', domain: ''
                              @ Int_String (uint (ri_DestinationDomain routeInfo))
                              @ '', amount: '' @ hr_Amount route @ '')'') result)))"

text \<open>\<open>Verify\<close>.\<close>

definition Verify :: "lib \<Rightarrow> Routes \<Rightarrow> TxRaw \<Rightarrow> error + VerifyResult" where
  "Verify L routes txRaw =
     (let result = \<lparr>vr_Valid = True, vr_MatchedCount = 0,
                     vr_TotalRoutes = length (rs_Routes routes),
                     vr_Errors = [], vr_Warnings = []\<rparr>
      in case TxBody_Unmarshal (raw_BodyBytes txRaw) of
           Inl err \<Rightarrow> Inr (addError (''failed to decode transaction body: '' @ err) result)
         | Inr txBody \<Rightarrow>
             (let remoteTxs = extractRemoteTxs (body_Messages txBody);
                  result1 =
                    (if length remoteTxs \<noteq> length (rs_Routes routes)
                     then addError (''transaction has '' @ Int_String (int (length remoteTxs))
                                      @ '' MsgRemoteTransfer messages, but routes has ''
                                      @ Int_String (int (length (rs_Routes routes)))
                                      @ '' entries'') result
                     else result)
              in verifyRoutes L remoteTxs 0 (rs_Routes routes) result1))"

section \<open>Example data\<close>

text \<open>
  Concrete values for the examples. The two bech32 addresses are the bech32
  encodings, with prefix \<open>celestia\<close>, of the bytes beside them. \<open>example_lib\<close>
  gives the values the library functions return on the inputs the examples
  use, with the SDK configured for the prefix \<open>celestia\<close>; elsewhere it reports
  an error.
\<close>

definition multisig :: string where
  "multisig = ''celestia1qypqxpq9qcrsszg2pvxq6rs0zqg3yyc5wgawu3''"

definition multisig_bytes :: "byte list" where
  "multisig_bytes = [0x01, 0x02, 0x03, 0x04, 0x05, 0x06, 0x07, 0x08, 0x09, 0x0a,
                     0x0b, 0x0c, 0x0d, 0x0e, 0x0f, 0x10, 0x11, 0x12, 0x13, 0x14]"

definition recipient_bech32 :: string where
  "recipient_bech32 = ''celestia1wskntnrxxnq9x2f95wuyf0y7wk2lp04swtxwxs''"

definition recipient_hex :: string where
  "recipient_hex = ''0x742d35Cc6634C0532925a3b844Bc9e7595f0bEb0''"

definition recipient_bytes :: "byte list" where
  "recipient_bytes = [0x74, 0x2d, 0x35, 0xcc, 0x66, 0x34, 0xc0, 0x53, 0x29, 0x25,
                      0xa3, 0xb8, 0x44, 0xbc, 0x9e, 0x75, 0x95, 0xf0, 0xbe, 0xb0]"

definition token_hex :: string where
  "token_hex = ''0x1234567890abcdef1234567890abcdef1234567890abcdef1234567890abcdef''"

definition token_bytes :: "byte list" where
  "token_bytes = [0x12, 0x34, 0x56, 0x78, 0x90, 0xab, 0xcd, 0xef,
                  0x12, 0x34, 0x56, 0x78, 0x90, 0xab, 0xcd, 0xef,
                  0x12, 0x34, 0x56, 0x78, 0x90, 0xab, 0xcd, 0xef,
                  0x12, 0x34, 0x56, 0x78, 0x90, 0xab, 0xcd, 0xef]"

definition metadata_ok :: string where
  "metadata_ok = ''{\"destination_domain\": 137, \"recipient\": \"0x8b3192f5eebad91f18723bc860fdb53c27af10ab\", \"token_id\": \"0xabcdef\"}''"

definition metadata_no_domain :: string where
  "metadata_no_domain = ''{\"recipient\": \"0x123\", \"token_id\": \"0xabc\"}''"

definition metadata_truncated :: string where
  "metadata_truncated = ''{''"

definition memo_domain_only :: string where
  "memo_domain_only = ''{\"destination_domain\":137}''"

definition config_json :: string where
  "config_json = ''{\"whitelist\":{\"domains\":{\"2340\":[\"0x742D35CC6634C0532925A3B844BC9E7595F0BEB0\"]}}}''"

definition example_lib :: lib where
  "example_lib =
     \<lparr>AccAddressFromBech32 =
        (\<lambda>s. if s = multisig then Inr multisig_bytes
             else if s = recipient_bech32 then Inr recipient_bytes
             else Inl ''decoding bech32 failed''),
      NewIntFromString =
        (\<lambda>s. if s = ''1000000'' then Some 1000000
             else if s = ''500000'' then Some 500000
             else None),
      Unmarshal_RouteInfo =
        (\<lambda>data v.
           if data = metadata_ok then
             Inr (v\<lparr>ri_DestinationDomain := 137,
                     ri_Recipient := ''0x8b3192f5eebad91f18723bc860fdb53c27af10ab'',
                     ri_TokenID := ''0xabcdef''\<rparr>)
           else if data = metadata_no_domain then
             Inr (v\<lparr>ri_Recipient := ''0x123'', ri_TokenID := ''0xabc''\<rparr>)
           else Inl ''unexpected end of JSON input''),
      Unmarshal_RoutingMetadata =
        (\<lambda>data v.
           if data = memo_domain_only then Inr (v\<lparr>rm_DestinationDomain := 137\<rparr>)
           else Inl ''unexpected end of JSON input''),
      Unmarshal_Config =
        (\<lambda>data v.
           if data = config_json then
             Inr (v\<lparr>cfg_Domains :=
                     [2340 \<mapsto> [''0x742D35CC6634C0532925A3B844BC9E7595F0BEB0'']]\<rparr>)
           else Inl ''unexpected end of JSON input''),
      ReadFile =
        (\<lambda>path. if path = ''config.json'' then Inr config_json
                else Inl ''open: no such file or directory'')\<rparr>"

text \<open>Routes, messages and transactions built from these values.\<close>

definition example_routeInfo :: RouteInfo where
  "example_routeInfo =
     \<lparr>ri_DestinationDomain = 1380012617, ri_Recipient = recipient_hex,
      ri_TokenID = token_hex, ri_Amount = []\<rparr>"

definition route_a :: HyperlaneRoute where
  "route_a =
     \<lparr>hr_TxHash = ''TX1_ABC123'', hr_BlockHeight = 1000000, hr_From = multisig,
      hr_Amount = ''1000000'', hr_Denom = ''utia'', hr_CustomHookMetadata = [],
      hr_RouteInfo = Some example_routeInfo\<rparr>"

definition route_b :: HyperlaneRoute where
  "route_b = route_a\<lparr>hr_TxHash := ''TX2_DEF456''\<rparr>"

text \<open>A route whose base amount is 1000000 and whose override is 500000.\<close>

definition route_override :: HyperlaneRoute where
  "route_override =
     route_a\<lparr>hr_RouteInfo := Some (example_routeInfo\<lparr>ri_Amount := ''500000''\<rparr>)\<rparr>"

definition msg_a :: MsgRemoteTransfer where
  "msg_a =
     \<lparr>mrt_Sender = multisig, mrt_TokenId = token_bytes,
      mrt_DestinationDomain = 1380012617,
      mrt_Recipient = replicate 12 0 @ recipient_bytes,
      mrt_Amount = 1000000, mrt_CustomHookMetadata = []\<rparr>"

definition msg_other :: MsgRemoteTransfer where
  "msg_other = msg_a\<lparr>mrt_DestinationDomain := 137\<rparr>"

definition anyRemote :: "MsgRemoteTransfer \<Rightarrow> Any" where
  "anyRemote m = \<lparr>any_TypeUrl = MsgRemoteTransfer_url, any_Value = RemoteTransferBytes m\<rparr>"

definition anySend :: "MsgSend \<Rightarrow> Any" where
  "anySend m = \<lparr>any_TypeUrl = MsgSend_url, any_Value = SendBytes m\<rparr>"

definition txRawOf :: "MsgRemoteTransfer list \<Rightarrow> TxRaw" where
  "txRawOf msgs =
     \<lparr>raw_BodyBytes = Inr \<lparr>body_Messages = map anyRemote msgs, body_Memo = []\<rparr>\<rparr>"

definition routesOf :: "HyperlaneRoute list \<Rightarrow> string \<Rightarrow> Routes" where
  "routesOf rs totalAmount =
     \<lparr>rs_Routes = rs, rs_TotalAmount = totalAmount, rs_MultisigAddr = multisig\<rparr>"

definition txnOf :: "string \<Rightarrow> string \<Rightarrow> Any list \<Rightarrow> Transaction" where
  "txnOf hash memo msgs =
     \<lparr>txn_Hash = hash, txn_BlockHeight = 1000000, txn_Memo = memo,
      txn_Tx = Some \<lparr>tx_Body = Some \<lparr>body_Messages = msgs, body_Memo = memo\<rparr>\<rparr>\<rparr>"

text \<open>
  Three transactions with one transfer from the multisig each: one with valid
  hook metadata, one whose hook metadata is not JSON, one without hook
  metadata.
\<close>

definition tx_metadata :: Transaction where
  "tx_metadata = txnOf ''TX1'' [] [anyRemote (msg_a\<lparr>mrt_CustomHookMetadata := metadata_ok\<rparr>)]"

definition tx_malformed :: Transaction where
  "tx_malformed =
     txnOf ''TX2'' [] [anyRemote (msg_a\<lparr>mrt_CustomHookMetadata := metadata_truncated\<rparr>)]"

definition tx_fields :: Transaction where
  "tx_fields = txnOf ''TX3'' [] [anyRemote msg_a]"

text \<open>A whitelist with an entry for domain 137 only.\<close>

definition whitelist_137 :: Config where
  "whitelist_137 =
     \<lparr>cfg_Domains = [137 \<mapsto> [''0x8b3192f5eebad91f18723bc860fdb53c27af10ab'']]\<rparr>"

text \<open>Bank sends to the multisig, for transactions whose memo names only a domain.\<close>

definition send_coins :: "Coin list \<Rightarrow> Any" where
  "send_coins coins =
     anySend \<lparr>ms_FromAddress = recipient_bech32, ms_ToAddress = multisig, ms_Amount = coins\<rparr>"

definition tx_memo :: Transaction where
  "tx_memo =
     txnOf ''TX4'' memo_domain_only
       [send_coins [\<lparr>coin_Denom = ''utia'', coin_Amount = 1000000\<rparr>]]"

definition tx_two_coins :: Transaction where
  "tx_two_coins =
     txnOf ''TX5'' memo_domain_only
       [send_coins [\<lparr>coin_Denom = ''utia'', coin_Amount = 1000000\<rparr>,
                    \<lparr>coin_Denom = ''uatom'', coin_Amount = 7\<rparr>]]"

definition tx_no_coins :: Transaction where
  "tx_no_coins = txnOf ''TX6'' memo_domain_only [send_coins []]"

section \<open>Lemmas for evaluation\<close>

lemma natDigits_small: "n < 10 \<Longrightarrow> natDigits n = [digits ! n]"
  by (simp add: natDigits.simps)

lemma natDigits_large:
  "10 \<le> n \<Longrightarrow> natDigits n = natDigits (n div 10) @ [digits ! (n mod 10)]"
  by (subst natDigits.simps) simp

lemma replicate_numeral: "replicate (numeral k) x = x # replicate (pred_numeral k) x"
  by (simp add: numeral_eq_Suc)

lemmas string_eval =
  HasPrefix_def TrimPrefix_def toLower_byte_def ToLower_def isSpace_def TrimSpace_def
  char_of_def bit_0 fromHexChar_def hextable_def hexByte_def EncodeToString_def
  natDigits_small natDigits_large digits_def Int_String_def replicate_numeral

lemmas example_eval =
  multisig_def multisig_bytes_def recipient_bech32_def recipient_hex_def recipient_bytes_def
  token_hex_def token_bytes_def metadata_ok_def metadata_no_domain_def
  metadata_truncated_def memo_domain_only_def config_json_def example_lib_def
  example_routeInfo_def route_a_def route_b_def route_override_def msg_a_def msg_other_def
  anyRemote_def anySend_def txRawOf_def routesOf_def txnOf_def tx_metadata_def
  tx_malformed_def tx_fields_def send_coins_def tx_memo_def tx_two_coins_def tx_no_coins_def
  MsgRemoteTransfer_url_def MsgSend_url_def whitelist_137_def

section \<open>Hexadecimal round trip\<close>

lemma fromHexChar_hextable: "n < 16 \<Longrightarrow> fromHexChar (hextable ! n) = Some n"
proof -
  assume "n < 16"
  have "list_all (\<lambda>k. fromHexChar (hextable ! k) = Some k) [0..<16]"
    by (simp add: upt_rec hextable_def fromHexChar_def)
  with \<open>n < 16\<close> show ?thesis
    by (simp add: list_all_iff)
qed

lemma byte_nibbles: "of_nat (unat (b::byte) div 16 * 16 + unat b mod 16) = b"
  by simp

lemma unat_byte_div16: "unat (b::byte) div 16 < 16"
proof -
  have "unat b < 256" using unsigned_less [of b, where 'a = nat] by simp
  then show ?thesis by simp
qed

lemma DecodeString_hexByte:
  "DecodeString (hexByte b @ src) =
     (case DecodeString src of Inl e \<Rightarrow> Inl e | Inr dst \<Rightarrow> Inr (b # dst))"
  by (cases "DecodeString src")
    (simp_all add: hexByte_def fromHexChar_hextable unat_byte_div16 byte_nibbles)

lemma DecodeString_EncodeToString: "DecodeString (EncodeToString bs) = Inr bs"
  by (induction bs) (simp_all add: EncodeToString_def DecodeString_hexByte)

lemma fromHexChar_toLower: "fromHexChar (toLower_byte c) = fromHexChar c"
proof -
  have "(of_char c :: nat) < 256" by simp
  show ?thesis
    by (auto simp: fromHexChar_def toLower_byte_def Let_def)
qed

lemma DecodeString_ToLower:
  "DecodeString (ToLower s) = Inr bs \<Longrightarrow> DecodeString s = Inr bs"
proof (induction s arbitrary: bs rule: DecodeString.induct)
  case 1
  then show ?case by (simp add: ToLower_def)
next
  case (2 p)
  then show ?case
    by (simp add: ToLower_def fromHexChar_toLower split: option.splits)
next
  case (3 p q src)
  then show ?case
    by (auto simp: ToLower_def fromHexChar_toLower split: option.splits sum.splits)
qed

section \<open>Properties of address canonicalization\<close>

text \<open>
  Claim C2. Whenever the input decodes (as hexadecimal after \<open>0x\<close>, or as a
  bech32 address), \<open>parseAndPadAddress\<close> left-pads a decoded form of at most 32
  bytes with zero bytes to exactly 32 bytes. For a decoded form of more than
  32 bytes the claim expects an error saying the address is too long; the
  function has no such check, and the slice expression
  \<open>paddedAddr[32-len(addrBytes):]\<close> panics with an index out of range.
\<close>

theorem parseAndPadAddress_decoded:
  assumes "(HasPrefix addrStr ''0x'' \<and> DecodeString (TrimPrefix addrStr ''0x'') = Inr bs)
           \<or> (\<not> HasPrefix addrStr ''0x'' \<and> AccAddressFromBech32 L addrStr = Inr bs)"
  shows "parseAndPadAddress L addrStr =
           (if 32 < length bs then Inl PanicSliceBounds
            else Inr (replicate (32 - length bs) 0 @ bs))"
  using assms by (auto simp: parseAndPadAddress_def padTo32_def)

theorem parseAndPadAddress_decoded_witness:
  "parseAndPadAddress example_lib
     ''0x010203040506070809101112131415161718192021222324252627282930313233''
   = Inl PanicSliceBounds"
proof -
  let ?s = "''0x010203040506070809101112131415161718192021222324252627282930313233''"
  let ?bs = "[0x01, 0x02, 0x03, 0x04, 0x05, 0x06, 0x07, 0x08, 0x09, 0x10, 0x11, 0x12,
              0x13, 0x14, 0x15, 0x16, 0x17, 0x18, 0x19, 0x20, 0x21, 0x22, 0x23, 0x24,
              0x25, 0x26, 0x27, 0x28, 0x29, 0x30, 0x31, 0x32, 0x33] :: byte list"
  have h: "(HasPrefix ?s ''0x'' \<and> DecodeString (TrimPrefix ?s ''0x'') = Inr ?bs)
           \<or> (\<not> HasPrefix ?s ''0x'' \<and> AccAddressFromBech32 example_lib ?s = Inr ?bs)"
    by (simp add: string_eval)
  show ?thesis
    using parseAndPadAddress_decoded [OF h] by simp
qed

text \<open>
  Claim C9. For a 20-byte address, \<open>parseAndPadAddress\<close> gives the same value on
  its hexadecimal form (the prefix \<open>0x\<close> and the hexadecimal digits of the
  bytes, in either letter case) and on a bech32 form of the same bytes (a
  string, not starting with \<open>0x\<close>, that the bech32 decoder maps to them): 12
  zero bytes followed by the 20 bytes of the address.
\<close>

theorem parseAndPadAddress_hex_bech32_agree:
  assumes "length bs = 20"
    and "HasPrefix hexForm ''0x''"
    and "ToLower hexForm = ''0x'' @ EncodeToString bs"
    and "\<not> HasPrefix bech32Form ''0x''"
    and "AccAddressFromBech32 L bech32Form = Inr bs"
  shows "parseAndPadAddress L hexForm = Inr (replicate 12 0 @ bs)
         \<and> parseAndPadAddress L bech32Form = Inr (replicate 12 0 @ bs)"
proof -
  have "ToLower (TrimPrefix hexForm ''0x'') = drop 2 (ToLower hexForm)"
    using assms(2) by (simp add: TrimPrefix_def ToLower_def drop_map numeral_2_eq_2)
  also have "\<dots> = EncodeToString bs"
    by (simp add: assms(3))
  finally have "DecodeString (TrimPrefix hexForm ''0x'') = Inr bs"
    by (simp add: DecodeString_ToLower DecodeString_EncodeToString)
  then have "parseAndPadAddress L hexForm = Inr (replicate 12 0 @ bs)"
    using assms(1,2) by (simp add: parseAndPadAddress_def padTo32_def)
  moreover have "parseAndPadAddress L bech32Form = Inr (replicate 12 0 @ bs)"
    using assms(1,4,5) by (simp add: parseAndPadAddress_def padTo32_def)
  ultimately show ?thesis by simp
qed

theorem parseAndPadAddress_hex_bech32_agree_witness:
  "parseAndPadAddress example_lib recipient_hex = Inr (replicate 12 0 @ recipient_bytes)
   \<and> parseAndPadAddress example_lib recipient_bech32 = Inr (replicate 12 0 @ recipient_bytes)"
proof -
  have 1: "length recipient_bytes = 20" by (simp add: recipient_bytes_def)
  have 2: "HasPrefix recipient_hex ''0x''" by (simp add: recipient_hex_def HasPrefix_def)
  have 3: "ToLower recipient_hex = ''0x'' @ EncodeToString recipient_bytes"
    by (simp add: recipient_hex_def recipient_bytes_def string_eval)
  have 4: "\<not> HasPrefix recipient_bech32 ''0x''"
    by (simp add: recipient_bech32_def HasPrefix_def)
  have 5: "AccAddressFromBech32 example_lib recipient_bech32 = Inr recipient_bytes"
    by (simp add: example_eval)
  show ?thesis
    using parseAndPadAddress_hex_bech32_agree [OF 1 2 3 4 5] .
qed


section \<open>Properties of the metadata parser\<close>

text \<open>
  Claim C6. \<open>ParseCustomHookMetadata\<close> fails when the JSON decoder fails. After
  a successful decode it fails with a missing-field error exactly when the
  destination domain is 0, the recipient is empty or the token id is empty;
  otherwise it returns the decoded value unchanged, so that an amount the
  decoder left at the zero value (the field was absent) is the empty string,
  the unset override.
\<close>

theorem ParseCustomHookMetadata_result:
  "(\<forall>err. Unmarshal_RouteInfo L metadata RouteInfo_zero = Inl err \<longrightarrow>
      ParseCustomHookMetadata L metadata = Inl (MetadataJSONFailed err))
   \<and> (\<forall>routeInfo. Unmarshal_RouteInfo L metadata RouteInfo_zero = Inr routeInfo \<longrightarrow>
        ((\<exists>name. ParseCustomHookMetadata L metadata = Inl (FieldRequired name))
           \<longleftrightarrow> (ri_DestinationDomain routeInfo = 0 \<or> ri_Recipient routeInfo = []
                \<or> ri_TokenID routeInfo = []))
      \<and> (ri_DestinationDomain routeInfo \<noteq> 0 \<and> ri_Recipient routeInfo \<noteq> []
           \<and> ri_TokenID routeInfo \<noteq> [] \<longrightarrow>
             ParseCustomHookMetadata L metadata = Inr routeInfo
             \<and> (ri_Amount routeInfo = ri_Amount RouteInfo_zero \<longrightarrow>
                  (\<exists>r. ParseCustomHookMetadata L metadata = Inr r \<and> ri_Amount r = []))))"
  by (auto simp: ParseCustomHookMetadata_def RouteInfo_zero_def)

theorem ParseCustomHookMetadata_result_witness:
  "ParseCustomHookMetadata example_lib metadata_truncated
     = Inl (MetadataJSONFailed ''unexpected end of JSON input'')
   \<and> (\<exists>name. ParseCustomHookMetadata example_lib metadata_no_domain = Inl (FieldRequired name))
   \<and> (\<exists>r. ParseCustomHookMetadata example_lib metadata_ok = Inr r \<and> ri_Amount r = [])"
proof -
  have 1: "Unmarshal_RouteInfo example_lib metadata_truncated RouteInfo_zero
             = Inl ''unexpected end of JSON input''"
    by (simp add: example_eval)
  have 2: "Unmarshal_RouteInfo example_lib metadata_no_domain RouteInfo_zero
             = Inr \<lparr>ri_DestinationDomain = 0, ri_Recipient = ''0x123'',
                    ri_TokenID = ''0xabc'', ri_Amount = []\<rparr>"
    by (simp add: example_eval RouteInfo_zero_def)
  have 3: "Unmarshal_RouteInfo example_lib metadata_ok RouteInfo_zero
             = Inr \<lparr>ri_DestinationDomain = 137,
                    ri_Recipient = ''0x8b3192f5eebad91f18723bc860fdb53c27af10ab'',
                    ri_TokenID = ''0xabcdef'', ri_Amount = []\<rparr>"
    by (simp add: example_eval RouteInfo_zero_def)
  show ?thesis
    using ParseCustomHookMetadata_result [of example_lib metadata_truncated] 1
      ParseCustomHookMetadata_result [of example_lib metadata_no_domain] 2
      ParseCustomHookMetadata_result [of example_lib metadata_ok] 3
    by (simp add: RouteInfo_zero_def)
qed

section \<open>Properties of the whitelist\<close>











section \<open>Properties of the extraction of transfers\<close>

lemma extractMessage_append:
  "extractMessage rm transfers anyMsg = transfers @ extractMessage rm [] anyMsg"
  by (simp add: extractMessage_def split: option.splits list.splits)

lemma foldl_extractMessage_append:
  "foldl (extractMessage rm) transfers msgs = transfers @ foldl (extractMessage rm) [] msgs"
proof (induction msgs arbitrary: transfers)
  case Nil
  then show ?case by simp
next
  case (Cons anyMsg msgs)
  have "foldl (extractMessage rm) transfers (anyMsg # msgs)
          = foldl (extractMessage rm) (extractMessage rm transfers anyMsg) msgs"
    by simp
  also have "\<dots> = extractMessage rm transfers anyMsg @ foldl (extractMessage rm) [] msgs"
    by (rule Cons.IH)
  also have "\<dots> = transfers @ extractMessage rm [] anyMsg @ foldl (extractMessage rm) [] msgs"
    by (subst extractMessage_append) simp
  also have "\<dots> = transfers @ foldl (extractMessage rm) (extractMessage rm [] anyMsg) msgs"
    by (subst (2) Cons.IH) simp
  finally show ?case by simp
qed

lemma url_distinct: "MsgSend_url \<noteq> MsgRemoteTransfer_url"
  by (simp add: MsgSend_url_def MsgRemoteTransfer_url_def)

text \<open>
  Claim C10. In a transaction whose memo decodes to routing metadata, a bank
  send message with an empty coin list contributes no transfer, and a bank
  send message with one or more coins contributes exactly one transfer, whose
  amount is the amount of the first coin; the other coins are ignored.
\<close>

theorem ExtractHyperlaneTransfers_bank_send:
  assumes "txn_Tx txn = Some t" and "tx_Body t = Some body"
    and "body_Messages body = before @ anyMsg # after"
    and "memoRoutingMeta L txn = Some meta"
    and "any_TypeUrl anyMsg = MsgSend_url"
    and "MsgSend_Unmarshal (any_Value anyMsg) = Some sendMsg"
  shows "(ms_Amount sendMsg = [] \<longrightarrow>
            ExtractHyperlaneTransfers L txn
              = foldl (extractMessage (Some meta)) [] before
                  @ foldl (extractMessage (Some meta)) [] after)
       \<and> (\<forall>coin coins. ms_Amount sendMsg = coin # coins \<longrightarrow>
            ExtractHyperlaneTransfers L txn
              = foldl (extractMessage (Some meta)) [] before
                  @ [\<lparr>ht_From = ms_ToAddress sendMsg,
                      ht_To = rm_Recipient meta,
                      ht_Amount = Int_String (coin_Amount coin),
                      ht_DestinationDomain = rm_DestinationDomain meta,
                      ht_TokenID = rm_TokenID meta,
                      ht_CustomHookMetadata = []\<rparr>]
                  @ foldl (extractMessage (Some meta)) [] after)"
proof -
  let ?f = "extractMessage (Some meta)"
  have "foldl ?f [] (before @ anyMsg # after) = foldl ?f (?f (foldl ?f [] before) anyMsg) after"
    by simp
  also have "\<dots> = ?f (foldl ?f [] before) anyMsg @ foldl ?f [] after"
    by (rule foldl_extractMessage_append)
  also have "\<dots> = foldl ?f [] before @ ?f [] anyMsg @ foldl ?f [] after"
    by (simp add: extractMessage_append [of "Some meta" "foldl ?f [] before" anyMsg])
  finally have split: "ExtractHyperlaneTransfers L txn
      = foldl ?f [] before @ ?f [] anyMsg @ foldl ?f [] after"
    using assms(1-4) by (simp add: ExtractHyperlaneTransfers_def)
  have step: "extractMessage (Some meta) [] anyMsg
      = (case ms_Amount sendMsg of
           [] \<Rightarrow> []
         | coin # coins \<Rightarrow>
             [\<lparr>ht_From = ms_ToAddress sendMsg,
               ht_To = rm_Recipient meta,
               ht_Amount = Int_String (coin_Amount coin),
               ht_DestinationDomain = rm_DestinationDomain meta,
               ht_TokenID = rm_TokenID meta,
               ht_CustomHookMetadata = []\<rparr>])"
    using assms(5,6) by (simp add: extractMessage_def url_distinct split: list.splits)
  show ?thesis
    by (simp add: split step)
qed

theorem ExtractHyperlaneTransfers_bank_send_witness:
  "ExtractHyperlaneTransfers example_lib tx_no_coins = []
   \<and> map ht_Amount (ExtractHyperlaneTransfers example_lib tx_two_coins) = [''1000000'']"
proof -
  let ?meta = "\<lparr>rm_DestinationDomain = 137, rm_Recipient = [], rm_TokenID = []\<rparr>"
  let ?two = "[\<lparr>coin_Denom = ''utia'', coin_Amount = 1000000\<rparr>,
               \<lparr>coin_Denom = ''uatom'', coin_Amount = 7\<rparr>]"
  have meta0: "memoRoutingMeta example_lib tx_no_coins = Some ?meta"
    by (simp add: memoRoutingMeta_def example_eval RoutingMetadata_zero_def)
  have meta2: "memoRoutingMeta example_lib tx_two_coins = Some ?meta"
    by (simp add: memoRoutingMeta_def example_eval RoutingMetadata_zero_def)
  have tx0: "txn_Tx tx_no_coins
               = Some \<lparr>tx_Body = Some \<lparr>body_Messages = [send_coins []],
                                          body_Memo = memo_domain_only\<rparr>\<rparr>"
    by (simp add: tx_no_coins_def txnOf_def)
  have tx2: "txn_Tx tx_two_coins
               = Some \<lparr>tx_Body = Some \<lparr>body_Messages = [send_coins ?two],
                                          body_Memo = memo_domain_only\<rparr>\<rparr>"
    by (simp add: tx_two_coins_def txnOf_def)
  have body: "tx_Body \<lparr>tx_Body = Some b\<rparr> = Some b" for b :: TxBody
    by simp
  have msgs: "body_Messages \<lparr>body_Messages = [m], body_Memo = memo_domain_only\<rparr>
                = [] @ m # []" for m
    by simp
  have url: "any_TypeUrl (send_coins coins) = MsgSend_url" for coins
    by (simp add: send_coins_def anySend_def)
  have dec: "MsgSend_Unmarshal (any_Value (send_coins coins))
               = Some \<lparr>ms_FromAddress = recipient_bech32, ms_ToAddress = multisig,
                       ms_Amount = coins\<rparr>" for coins
    by (simp add: send_coins_def anySend_def MsgSend_Unmarshal_def)
  have amount: "Int_String 1000000 = ''1000000''"
    by (simp add: string_eval)
  have "ExtractHyperlaneTransfers example_lib tx_no_coins = []"
    using ExtractHyperlaneTransfers_bank_send [OF tx0 body msgs meta0 url dec]
    by simp
  moreover have "map ht_Amount (ExtractHyperlaneTransfers example_lib tx_two_coins) = [''1000000'']"
    using ExtractHyperlaneTransfers_bank_send [OF tx2 body msgs meta2 url dec]
    by (simp add: amount)
  ultimately show ?thesis by simp
qed


section \<open>Properties of the verifier\<close>


lemma addError_fields:
  "vr_Valid (addError e result) = False"
  "vr_Errors (addError e result) \<noteq> []"
  "vr_MatchedCount (addError e result) = vr_MatchedCount result"
  "vr_TotalRoutes (addError e result) = vr_TotalRoutes result"
  by (simp_all add: addError_def)

lemma verifyRoutes_report:
  "verifyRoutes L remoteTxs i routes result = Inr result' \<Longrightarrow>
     vr_TotalRoutes result' = vr_TotalRoutes result
   \<and> vr_MatchedCount result' \<le> vr_MatchedCount result + length routes
   \<and> (vr_Valid result' \<longrightarrow>
        vr_Valid result
        \<and> vr_MatchedCount result' = vr_MatchedCount result + length routes
        \<and> (\<forall>route \<in> set routes. findMatch L remoteTxs route = Inr True))
   \<and> ((vr_Valid result \<longleftrightarrow> vr_Errors result = []) \<longrightarrow>
        (vr_Valid result' \<longleftrightarrow> vr_Errors result' = []))"
proof (induction routes arbitrary: i result)
  case Nil
  then show ?case by simp
next
  case (Cons route routes)
  show ?case
  proof (cases "hr_RouteInfo route")
    case None
    with Cons.prems obtain e where
      "verifyRoutes L remoteTxs (Suc i) routes (addError e result) = Inr result'"
      by simp
    from Cons.IH [OF this] show ?thesis
      by (auto simp: addError_fields)
  next
    case (Some routeInfo)
    show ?thesis
    proof (cases "findMatch L remoteTxs route")
      case (Inl err)
      with Some Cons.prems show ?thesis by simp
    next
      case (Inr found)
      show ?thesis
      proof (cases found)
        case True
        with Some Inr Cons.prems have
          "verifyRoutes L remoteTxs (Suc i) routes
             (result\<lparr>vr_MatchedCount := vr_MatchedCount result + 1\<rparr>) = Inr result'"
          by simp
        from Cons.IH [OF this] True Inr show ?thesis
          by auto
      next
        case False
        with Some Inr Cons.prems obtain e where
          "verifyRoutes L remoteTxs (Suc i) routes (addError e result) = Inr result'"
          by simp
        from Cons.IH [OF this] show ?thesis
          by (auto simp: addError_fields)
      qed
    qed
  qed
qed

text \<open>
  Claim C5. Whenever \<open>Verify\<close> returns a report, the report is consistent:
  \<open>valid\<close> is false when the matched count is below the number of routes, and
  \<open>valid\<close> holds if and only if the matched count equals the number of routes
  and the list of errors is empty.
\<close>

theorem Verify_report_consistent:
  assumes "Verify L routes txRaw = Inr result"
  shows "(vr_MatchedCount result < vr_TotalRoutes result \<longrightarrow> \<not> vr_Valid result)
       \<and> (vr_Valid result \<longleftrightarrow>
            vr_MatchedCount result = vr_TotalRoutes result \<and> vr_Errors result = [])"
proof (cases "TxBody_Unmarshal (raw_BodyBytes txRaw)")
  case (Inl err)
  with assms show ?thesis
    by (auto simp: Verify_def Let_def addError_def)
next
  case (Inr txBody)
  let ?result0 = "\<lparr>vr_Valid = True, vr_MatchedCount = 0,
                    vr_TotalRoutes = length (rs_Routes routes),
                    vr_Errors = [], vr_Warnings = []\<rparr>"
  from Inr assms obtain result1 where
    run: "verifyRoutes L (extractRemoteTxs (body_Messages txBody)) 0 (rs_Routes routes) result1
            = Inr result"
    and start: "result1 = ?result0 \<or> (\<exists>e. result1 = addError e ?result0)"
    by (auto simp: Verify_def Let_def split: if_splits)
  from start have init:
    "vr_MatchedCount result1 = 0" "vr_TotalRoutes result1 = length (rs_Routes routes)"
    "vr_Valid result1 \<longleftrightarrow> vr_Errors result1 = []"
    by (auto simp: addError_def)
  from verifyRoutes_report [OF run] init show ?thesis
    by auto
qed

lemma expected_recipient_hex:
  "expectedRecipientHex example_lib recipient_hex
     = Inr ''000000000000000000000000742d35cc6634c0532925a3b844bc9e7595f0beb0''"
  by (simp add: expectedRecipientHex_def recipient_hex_def string_eval)

lemma msg_recipient_hex:
  "EncodeToString (replicate 12 0 @ recipient_bytes)
     = ''000000000000000000000000742d35cc6634c0532925a3b844bc9e7595f0beb0''"
  by (simp add: recipient_bytes_def string_eval)

lemma token_hex_matches:
  "EncodeToString token_bytes = TrimPrefix (ToLower token_hex) ''0x''"
  by (simp add: token_bytes_def token_hex_def string_eval)

lemma amount_string: "Int_String 1000000 = ''1000000''"
  by (simp add: string_eval)

lemma msg_a_matches_route_a: "MatchesRoute example_lib msg_a route_a = Inr True"
  by (simp add: MatchesRoute_def msg_a_def route_a_def example_routeInfo_def
      expected_recipient_hex msg_recipient_hex token_hex_matches amount_string)



lemma extractRemoteTxs_anyRemote: "extractRemoteTxs (map anyRemote msgs) = msgs"
  by (induction msgs) (simp_all add: anyRemote_def MsgRemoteTransfer_Unmarshal_def)

lemma route_info_present:
  "hr_RouteInfo route_a = Some example_routeInfo" "hr_RouteInfo route_b = Some example_routeInfo"
  by (simp_all add: route_a_def route_b_def)

lemma Verify_txRawOf:
  "Verify L routes (txRawOf msgs)
     = verifyRoutes L msgs 0 (rs_Routes routes)
         (if length msgs \<noteq> length (rs_Routes routes)
          then addError (''transaction has '' @ Int_String (int (length msgs))
                           @ '' MsgRemoteTransfer messages, but routes has ''
                           @ Int_String (int (length (rs_Routes routes)))
                           @ '' entries'')
                 \<lparr>vr_Valid = True, vr_MatchedCount = 0,
                  vr_TotalRoutes = length (rs_Routes routes),
                  vr_Errors = [], vr_Warnings = []\<rparr>
          else \<lparr>vr_Valid = True, vr_MatchedCount = 0,
                 vr_TotalRoutes = length (rs_Routes routes),
                 vr_Errors = [], vr_Warnings = []\<rparr>)"
  by (simp add: Verify_def txRawOf_def TxBody_Unmarshal_def extractRemoteTxs_anyRemote Let_def)




theorem Verify_report_consistent_witness:
  "\<exists>result. Verify example_lib (routesOf [route_a, route_override] ''1500000'')
               (txRawOf [msg_a, msg_other]) = Inr result
     \<and> vr_MatchedCount result = 1 \<and> vr_TotalRoutes result = 2
     \<and> \<not> vr_Valid result"
proof -
  have no_a: "MatchesRoute example_lib msg_a route_override = Inr False"
    by (simp add: MatchesRoute_def msg_a_def route_a_def route_override_def
        example_routeInfo_def amount_string)
  have no_other: "MatchesRoute example_lib msg_other route_override = Inr False"
    by (simp add: MatchesRoute_def msg_a_def msg_other_def route_a_def route_override_def
        example_routeInfo_def)
  have info: "hr_RouteInfo route_override = Some (example_routeInfo\<lparr>ri_Amount := ''500000''\<rparr>)"
    by (simp add: route_override_def)
  obtain result where
    run: "Verify example_lib (routesOf [route_a, route_override] ''1500000'')
               (txRawOf [msg_a, msg_other]) = Inr result"
    and counts: "vr_MatchedCount result = 1" "vr_TotalRoutes result = 2"
    by (simp add: Verify_txRawOf routesOf_def route_info_present info msg_a_matches_route_a
      no_a no_other addError_def)
  from Verify_report_consistent [OF run] counts have "\<not> vr_Valid result"
    by auto
  with run counts show ?thesis by blast
qed

section \<open>Properties of the generator\<close>

lemma parseTokenID_token_hex: "parseTokenID token_hex = Inr token_bytes"
  by (simp add: parseTokenID_def token_hex_def token_bytes_def string_eval)

lemma parseAndPadAddress_recipient_hex:
  "parseAndPadAddress example_lib recipient_hex = Inr (replicate 12 0 @ recipient_bytes)"
  by (simp add: parseAndPadAddress_def padTo32_def recipient_hex_def recipient_bytes_def
      string_eval)

lemma NewIntFromString_example:
  "NewIntFromString example_lib ''1000000'' = Some 1000000"
  by (simp add: example_lib_def)

lemma Generate_route_override:
  "Generate example_lib multisig [route_override] = Inr [msg_a]"
  by (simp add: route_override_def route_a_def example_routeInfo_def msg_a_def
      parseTokenID_token_hex parseAndPadAddress_recipient_hex NewIntFromString_example)



text \<open>
  Claim C1 says that a route with base amount A and a non-empty override B is
  generated and matched with B. \<open>MatchesRoute\<close> compares with B, but \<open>Generate\<close>
  parses the base amount: for the route with base amount 1000000 and
  override 500000 it emits a message of amount 1000000, which \<open>MatchesRoute\<close>
  rejects for that same route, while the message of amount 500000 matches.
\<close>

theorem Generate_ignores_amount_override:
  "hr_Amount route_override = ''1000000''
   \<and> map_option ri_Amount (hr_RouteInfo route_override) = Some ''500000''
   \<and> Generate example_lib multisig [route_override] = Inr [msg_a]
   \<and> mrt_Amount msg_a = 1000000
   \<and> MatchesRoute example_lib msg_a route_override = Inr False
   \<and> MatchesRoute example_lib (msg_a\<lparr>mrt_Amount := 500000\<rparr>) route_override = Inr True"
proof -
  have "Int_String 500000 = ''500000''"
    by (simp add: string_eval)
  then have "MatchesRoute example_lib (msg_a\<lparr>mrt_Amount := 500000\<rparr>) route_override = Inr True"
    by (simp add: MatchesRoute_def msg_a_def route_a_def route_override_def
        example_routeInfo_def expected_recipient_hex msg_recipient_hex token_hex_matches)
  moreover have "MatchesRoute example_lib msg_a route_override = Inr False"
    by (simp add: MatchesRoute_def msg_a_def route_a_def route_override_def
        example_routeInfo_def amount_string)
  moreover have "hr_Amount route_override = ''1000000''"
    by (simp add: route_override_def route_a_def)
  moreover have "map_option ri_Amount (hr_RouteInfo route_override) = Some ''500000''"
    by (simp add: route_override_def)
  moreover have "mrt_Amount msg_a = 1000000"
    by (simp add: msg_a_def)
  ultimately show ?thesis
    using Generate_route_override by blast
qed


section \<open>Properties of the extraction of routes\<close>

lemma processTransfer_other_sender:
  "ht_From transfer \<noteq> multisigAddr \<Longrightarrow>
   processTransfer L config multisigAddr tx st transfer = st"
  by (simp add: processTransfer_def)


lemma foldl_unchanged:
  "(\<And>s. \<forall>x \<in> set xs. f s x = s) \<Longrightarrow> foldl f st xs = st"
  by (induction xs arbitrary: st) simp_all

lemma transferTouches_sender:
  "ht_From transfer = targetAddress \<Longrightarrow> transferTouches targetHex targetAddress transfer"
  by (simp add: transferTouches_def Let_def)

lemma processTx_filtered_out:
  assumes "\<not> (\<exists>transfer \<in> set (ExtractHyperlaneTransfers L tx).
                transferTouches targetHex multisigAddr transfer)"
  shows "processTx L config multisigAddr st tx = st"
proof -
  have "\<forall>transfer \<in> set (ExtractHyperlaneTransfers L tx). ht_From transfer \<noteq> multisigAddr"
    using assms transferTouches_sender by blast
  then show ?thesis
    unfolding processTx_def
    by (intro foldl_unchanged) (simp add: processTransfer_other_sender)
qed

lemma foldl_processTx_filter:
  "foldl (processTx L config multisigAddr) st
     (FilterHyperlaneTransfersToAddress L txs multisigAddr)
   = foldl (processTx L config multisigAddr) st txs"
  by (induction txs arbitrary: st)
     (simp_all add: FilterHyperlaneTransfersToAddress_def processTx_filtered_out)





lemma ParseRoutes_queried:
  "ParseRoutes L config multisigAddr (Inr txs)
     = Inr \<lparr>rs_Routes = fst (foldl (processTx L config multisigAddr) ([], 0) txs),
            rs_TotalAmount = Int_String (snd (foldl (processTx L config multisigAddr) ([], 0) txs)),
            rs_MultisigAddr = multisigAddr\<rparr>"
  by (simp add: ParseRoutes_def Let_def foldl_processTx_filter)


lemma Extract_txnOf:
  "ExtractHyperlaneTransfers L (txnOf hash memo msgs)
     = foldl (extractMessage (memoRoutingMeta L (txnOf hash memo msgs))) [] msgs"
  by (simp add: ExtractHyperlaneTransfers_def txnOf_def)






text \<open>
  On every path a route that \<open>ParseRoutes\<close> emits has routing information
  whose destination domain is not 0, and a route that carries hook metadata
  has a recipient and a token id that are not empty.
\<close>

lemma processTransfer_routeInfo:
  assumes "\<forall>route \<in> set (fst st). \<exists>routeInfo. hr_RouteInfo route = Some routeInfo
             \<and> ri_DestinationDomain routeInfo \<noteq> 0
             \<and> (hr_CustomHookMetadata route \<noteq> [] \<longrightarrow>
                  ri_Recipient routeInfo \<noteq> [] \<and> ri_TokenID routeInfo \<noteq> [])"
  shows "\<forall>route \<in> set (fst (processTransfer L config multisigAddr tx st transfer)).
           \<exists>routeInfo. hr_RouteInfo route = Some routeInfo
             \<and> ri_DestinationDomain routeInfo \<noteq> 0
             \<and> (hr_CustomHookMetadata route \<noteq> [] \<longrightarrow>
                  ri_Recipient routeInfo \<noteq> [] \<and> ri_TokenID routeInfo \<noteq> [])"
  using assms
  by (auto simp: processTransfer_def resolveRouteInfo_def ParseCustomHookMetadata_def Let_def
      split: option.splits sum.splits if_splits)

lemma ParseRoutes_routeInfo:
  assumes "ParseRoutes L config multisigAddr queried = Inr routes"
    and "route \<in> set (rs_Routes routes)"
  shows "\<exists>routeInfo. hr_RouteInfo route = Some routeInfo
           \<and> ri_DestinationDomain routeInfo \<noteq> 0
           \<and> (hr_CustomHookMetadata route \<noteq> [] \<longrightarrow>
                ri_Recipient routeInfo \<noteq> [] \<and> ri_TokenID routeInfo \<noteq> [])"
proof -
  let ?ok = "\<lambda>st. \<forall>route \<in> set (fst st). \<exists>routeInfo. hr_RouteInfo route = Some routeInfo
             \<and> ri_DestinationDomain routeInfo \<noteq> 0
             \<and> (hr_CustomHookMetadata route \<noteq> [] \<longrightarrow>
                  ri_Recipient routeInfo \<noteq> [] \<and> ri_TokenID routeInfo \<noteq> [])"
  have inner: "?ok st \<Longrightarrow> ?ok (foldl (processTransfer L config multisigAddr tx) st transfers)"
    for st tx transfers
  proof (induction transfers arbitrary: st)
    case Nil
    then show ?case by simp
  next
    case (Cons transfer transfers)
    from Cons.prems have "?ok (processTransfer L config multisigAddr tx st transfer)"
      by (rule processTransfer_routeInfo)
    then show ?case
      using Cons.IH by simp
  qed
  have outer: "?ok st \<Longrightarrow> ?ok (foldl (processTx L config multisigAddr) st txs)" for st txs
  proof (induction txs arbitrary: st)
    case Nil
    then show ?case by simp
  next
    case (Cons tx txs)
    from Cons.prems have "?ok (processTx L config multisigAddr st tx)"
      unfolding processTx_def by (rule inner)
    then show ?case
      using Cons.IH by simp
  qed
  from assms(1) obtain txs where q: "queried = Inr txs"
    by (cases queried) (simp_all add: ParseRoutes_def)
  have "?ok (foldl (processTx L config multisigAddr) ([], 0) txs)"
    by (rule outer) simp
  with assms q show ?thesis
    by (auto simp: ParseRoutes_queried)
qed

lemma memo_meta_tx_memo:
  "memoRoutingMeta example_lib (txnOf hash memo_domain_only msgs)
     = Some \<lparr>rm_DestinationDomain = 137, rm_Recipient = [], rm_TokenID = []\<rparr>"
  by (simp add: memoRoutingMeta_def txnOf_def example_lib_def RoutingMetadata_zero_def
      memo_domain_only_def)

text \<open>
  Claim C3 says that every route \<open>ParseRoutes\<close> emits has a recipient and a
  token id that are not empty, also on the memo fallback. There \<open>ParseRoutes\<close>
  only requires a destination domain other than 0: for a bank send to the
  multisig in a transaction whose memo names only the destination domain, it
  emits a route whose recipient and token id are empty.
\<close>

theorem ParseRoutes_memo_route_without_recipient:
  "ParseRoutes example_lib None multisig (Inr [tx_memo])
     = Inr \<lparr>rs_Routes =
              [\<lparr>hr_TxHash = ''TX4'', hr_BlockHeight = 1000000, hr_From = multisig,
                hr_Amount = ''1000000'', hr_Denom = ''utia'', hr_CustomHookMetadata = [],
                hr_RouteInfo =
                  Some \<lparr>ri_DestinationDomain = 137, ri_Recipient = [],
                        ri_TokenID = [], ri_Amount = []\<rparr>\<rparr>],
            rs_TotalAmount = ''1000000'',
            rs_MultisigAddr = multisig\<rparr>"
proof -
  have amount: "Int_String 1000000 = ''1000000''"
    by (simp add: string_eval)
  have parsed: "NewIntFromString example_lib ''1000000'' = Some 1000000"
    by (simp add: example_lib_def)
  have transfers: "ExtractHyperlaneTransfers example_lib tx_memo
      = [\<lparr>ht_From = multisig, ht_To = [], ht_Amount = ''1000000'',
          ht_DestinationDomain = 137, ht_TokenID = [], ht_CustomHookMetadata = []\<rparr>]"
    by (simp add: tx_memo_def Extract_txnOf memo_meta_tx_memo extractMessage_def
        send_coins_def anySend_def MsgSend_Unmarshal_def MsgSend_url_def
        MsgRemoteTransfer_url_def amount)
  show ?thesis
    by (simp add: ParseRoutes_queried processTx_def transfers processTransfer_def
        resolveRouteInfo_def Let_def parsed amount Int_Add_def)
       (simp add: tx_memo_def txnOf_def)
qed


end
